theory Spec2Isabelle
  imports Complex_Main
begin

section \<open>Exceptions and numbers\<close>

text \<open>
  The exceptions the two modules can raise.  \<open>sys.exit()\<close> raises \<open>SystemExit\<close>;
  reading a list or an array past its end raises \<open>IndexError\<close>; a name that was never
  bound raises \<open>NameError\<close>; arithmetic on \<open>None\<close> raises \<open>TypeError\<close>; a Python
  float divided by zero raises \<open>ZeroDivisionError\<close>.

  Python floats are modelled by the reals: every sum and product is exact, and rounding
  and overflow are outside the model.  A numpy division by zero raises nothing: it yields
  \<open>inf\<close> or \<open>nan\<close>, which is no real number, and is modelled by \<open>None\<close> where it
  can occur.
\<close>

datatype py_error = SystemExit | NotImplementedError | IndexError | NameError
  | TypeError | ZeroDivisionError

section \<open>constrained_integrator.py: class ConstrainedIntegrator\<close>

text \<open>
  The attributes \<open>__init__\<close> assigns to \<open>self\<close>.  The class has no attribute that
  holds a configuration, and no tolerance.
\<close>

record integrator =
  surface_function :: "real list \<Rightarrow> real"
  mobility :: "real list list"
  dim :: nat
  current_time :: real
  scheme :: string

text \<open>
  The loop \<open>for k in range(self.dim)\<close> of \<open>__init__\<close>: the first row whose length
  is not \<open>self.dim\<close> ends the program through \<open>sys.exit()\<close>.
\<close>

fun check_rows :: "real list list \<Rightarrow> nat \<Rightarrow> nat list \<Rightarrow> py_error + unit" where
  "check_rows M d [] = Inr ()"
| "check_rows M d (k # ks) =
     (if length (M ! k) \<noteq> d then Inl SystemExit else check_rows M d ks)"

text \<open>
  \<open>__init__\<close>: the square check comes first, then \<open>current_time = 0.\<close>, then the test
  of the scheme.  A constructor that raises yields no object.
\<close>

definition init :: "(real list \<Rightarrow> real) \<Rightarrow> real list list \<Rightarrow> string \<Rightarrow> py_error + integrator" where
  "init sf M sch =
     (case check_rows M (length M) [0..<length M] of
        Inl e \<Rightarrow> Inl e
      | Inr _ \<Rightarrow>
          if sch \<notin> set [''RFD'', ''EULER''] then Inl NotImplementedError
          else Inr \<lparr>surface_function = sf, mobility = M, dim = length M,
                    current_time = 0, scheme = sch\<rparr>)"

text \<open>
  A method is a function from the object before the call to the outcome (an exception
  or the returned value) and the object after the call.  Both step methods are
  \<open>pass\<close>: they return \<open>None\<close> and assign nothing.
\<close>

definition EulerTimeStep :: "integrator \<Rightarrow> real \<Rightarrow> (py_error + unit) \<times> integrator" where
  "EulerTimeStep s dt = (Inr (), s)"

definition RFDTimeStep :: "integrator \<Rightarrow> real \<Rightarrow> (py_error + unit) \<times> integrator" where
  "RFDTimeStep s dt = (Inr (), s)"

definition TimeStep :: "integrator \<Rightarrow> real \<Rightarrow> (py_error + unit) \<times> integrator" where
  "TimeStep s dt =
     (if scheme s = ''RFD'' then RFDTimeStep s dt
      else if scheme s = ''EULER'' then EulerTimeStep s dt
      else (Inl SystemExit, s))"



text \<open>
  \<open>ApplyMobility\<close>.  Its first statement is \<open>velocity = zeros(self.dim)\<close>.  The
  module binds two global names, \<open>sys\<close> (its only import) and the class; \<open>zeros\<close> is
  bound nowhere, in the module or among the builtins, so reading it raises
  \<open>NameError\<close>.  This happens before \<open>force\<close> or \<open>self.mobility\<close> is looked at, on
  every call, and the loops are never reached.
\<close>

definition ApplyMobility :: "integrator \<Rightarrow> real list \<Rightarrow> (py_error + real list) \<times> integrator" where
  "ApplyMobility s force = (Inl NameError, s)"

text \<open>
  numpy's arithmetic on one-dimensional arrays, used by callers to form
  \<open>a*F1 + b*F2\<close>: a scalar times an array, and the sum of two arrays of one length.
\<close>

definition array_scale :: "real \<Rightarrow> real list \<Rightarrow> real list" where
  "array_scale a v = map (\<lambda>x. a * x) v"

definition array_add :: "real list \<Rightarrow> real list \<Rightarrow> real list" where
  "array_add u v = map2 (+) u v"

section \<open>multi_bodies_functions.py: blob-blob forces\<close>

text \<open>
  A row of an array of shape \<open>(Nblobs, 3)\<close>, with numpy's componentwise sum,
  difference and negation.
\<close>

datatype vec3 = Vec3 real real real

instantiation vec3 :: ab_group_add
begin

definition zero_vec3 :: vec3 where
  "zero_vec3 = Vec3 0 0 0"

fun plus_vec3 :: "vec3 \<Rightarrow> vec3 \<Rightarrow> vec3" where
  "plus_vec3 (Vec3 a b c) (Vec3 x y z) = Vec3 (a + x) (b + y) (c + z)"

fun minus_vec3 :: "vec3 \<Rightarrow> vec3 \<Rightarrow> vec3" where
  "minus_vec3 (Vec3 a b c) (Vec3 x y z) = Vec3 (a - x) (b - y) (c - z)"

fun uminus_vec3 :: "vec3 \<Rightarrow> vec3" where
  "uminus_vec3 (Vec3 a b c) = Vec3 (- a) (- b) (- c)"

instance
proof
  fix u v w :: vec3
  show "u + v + w = u + (v + w)"
    by (cases u, cases v, cases w) simp
  show "u + v = v + u"
    by (cases u, cases v) simp
  show "0 + u = u"
    by (cases u) (simp add: zero_vec3_def)
  show "- u + u = 0"
    by (cases u) (simp add: zero_vec3_def)
  show "u - v = u + - v"
    by (cases u, cases v) simp
qed

end

text \<open>\<open>np.linalg.norm(r)\<close>, a scalar times a row, and a row divided by a scalar.\<close>

definition norm3 :: "vec3 \<Rightarrow> real" where
  "norm3 r = (case r of Vec3 x y z \<Rightarrow> sqrt (x\<^sup>2 + y\<^sup>2 + z\<^sup>2))"

definition smult :: "real \<Rightarrow> vec3 \<Rightarrow> vec3" where
  "smult c r = (case r of Vec3 x y z \<Rightarrow> Vec3 (c * x) (c * y) (c * z))"

definition sdiv :: "vec3 \<Rightarrow> real \<Rightarrow> vec3" where
  "sdiv r c = (case r of Vec3 x y z \<Rightarrow> Vec3 (x / c) (y / c) (z / c))"

text \<open>
  A row of the force array is \<open>Some v\<close>, or \<open>None\<close> for the row \<open>[nan, nan, nan]\<close>.
  \<open>+=\<close> and \<open>-=\<close> on rows keep a \<open>nan\<close>, and so does \<open>sum\<close> over the rows of the
  array.
\<close>

definition nan_add :: "vec3 option \<Rightarrow> vec3 option \<Rightarrow> vec3 option" where
  "nan_add u v = (case (u, v) of (Some a, Some b) \<Rightarrow> Some (a + b) | _ \<Rightarrow> None)"

definition nan_sub :: "vec3 option \<Rightarrow> vec3 option \<Rightarrow> vec3 option" where
  "nan_sub u v = (case (u, v) of (Some a, Some b) \<Rightarrow> Some (a - b) | _ \<Rightarrow> None)"

definition array_sum :: "vec3 option list \<Rightarrow> vec3 option" where
  "array_sum force_blobs = foldl nan_add (Some 0) force_blobs"

text \<open>
  \<open>blob_blob_force(r, *args, **kwargs)\<close>.  \<open>kwargs.get\<close> gives \<open>None\<close> for a missing
  key, and \<open>eps / b\<close> is the first operation: it raises \<open>TypeError\<close> on \<open>None\<close> and
  \<open>ZeroDivisionError\<close> when \<open>b\<close> is the Python float zero.  \<open>r_norm\<close> is a numpy
  float: where it is zero, \<open>eps / r_norm\<close> is \<open>inf\<close> or \<open>nan\<close>, its product with the
  zero row \<open>r\<close> is \<open>nan\<close>, and the returned row is \<open>[nan, nan, nan]\<close>.
\<close>

definition blob_blob_force :: "(string \<rightharpoonup> real) \<Rightarrow> vec3 \<Rightarrow> py_error + vec3 option" where
  "blob_blob_force kwargs r =
     (case (kwargs ''repulsion_strength'', kwargs ''debey_length'') of
        (Some eps, Some b) \<Rightarrow>
          let r_norm = norm3 r in
          if b = 0 then Inl ZeroDivisionError
          else if r_norm = 0 then Inr None
          else Inr (Some (sdiv (smult (- ((eps / b) + (eps / r_norm)) * exp (- r_norm / b)) r)
                            (r_norm\<^sup>2)))
      | _ \<Rightarrow> Inl TypeError)"

text \<open>
  The inner loop of \<open>calc_blob_blob_forces_python\<close>, \<open>for j in range(i+1, Nblobs)\<close>:
  the force of the pair is added to row \<open>i\<close> and subtracted from row \<open>j\<close>.  The
  function called for the pair is the parameter \<open>f\<close>.  Since \<open>i < j < Nblobs\<close>, no
  read is out of range.
\<close>

fun blob_pairs_inner ::
  "(vec3 \<Rightarrow> py_error + vec3 option) \<Rightarrow> vec3 list \<Rightarrow> nat \<Rightarrow> nat list \<Rightarrow> vec3 option list
     \<Rightarrow> py_error + vec3 option list" where
  "blob_pairs_inner f r_vectors i [] force_blobs = Inr force_blobs"
| "blob_pairs_inner f r_vectors i (j # js) force_blobs =
     (case f (r_vectors ! j - r_vectors ! i) of
        Inl e \<Rightarrow> Inl e
      | Inr force \<Rightarrow>
          let fb = force_blobs[i := nan_add (force_blobs ! i) force]
          in blob_pairs_inner f r_vectors i js (fb[j := nan_sub (fb ! j) force]))"

text \<open>The outer loop, \<open>for i in range(Nblobs-1)\<close>.\<close>

fun blob_pairs_outer ::
  "(vec3 \<Rightarrow> py_error + vec3 option) \<Rightarrow> vec3 list \<Rightarrow> nat \<Rightarrow> nat list \<Rightarrow> vec3 option list
     \<Rightarrow> py_error + vec3 option list" where
  "blob_pairs_outer f r_vectors Nblobs [] force_blobs = Inr force_blobs"
| "blob_pairs_outer f r_vectors Nblobs (i # ii) force_blobs =
     (case blob_pairs_inner f r_vectors i [i + 1..<Nblobs] force_blobs of
        Inl e \<Rightarrow> Inl e
      | Inr fb \<Rightarrow> blob_pairs_outer f r_vectors Nblobs ii fb)"

text \<open>
  \<open>calc_blob_blob_forces_python(r_vectors, *args, **kwargs)\<close> on an array of shape
  \<open>(Nblobs, 3)\<close>: \<open>r_vectors.size / 3\<close> is the number of rows, \<open>range(Nblobs-1)\<close> is
  empty for \<open>Nblobs = 0\<close> (as \<open>[0..<0 - 1]\<close> is), and \<open>force_blobs\<close> starts as
  \<open>np.zeros((Nblobs, 3))\<close>.
\<close>

definition calc_blob_blob_forces_python ::
  "(string \<rightharpoonup> real) \<Rightarrow> vec3 list \<Rightarrow> py_error + vec3 option list" where
  "calc_blob_blob_forces_python kwargs r_vectors =
     (let Nblobs = length r_vectors
      in blob_pairs_outer (blob_blob_force kwargs) r_vectors Nblobs [0..<Nblobs - 1]
           (replicate Nblobs (Some 0)))"

text \<open>
  The functions \<open>set_blob_blob_forces\<close> can return.  \<open>forces_pycuda\<close> is bound only
  when the module found pycuda at import (\<open>found_pycuda\<close>); the other three names are
  functions of the module itself.  A function that runs off its last \<open>elif\<close> returns
  \<open>None\<close>.
\<close>

datatype force_function =
    Default_zero_r_vectors
  | Calc_blob_blob_forces_python
  | Calc_blob_blob_forces_boost
  | Calc_blob_blob_forces_pycuda

definition set_blob_blob_forces :: "bool \<Rightarrow> string \<Rightarrow> py_error + force_function option" where
  "set_blob_blob_forces found_pycuda implementation =
     (if implementation = ''None'' then Inr (Some Default_zero_r_vectors)
      else if implementation = ''python'' then Inr (Some Calc_blob_blob_forces_python)
      else if implementation = ''C++'' then Inr (Some Calc_blob_blob_forces_boost)
      else if implementation = ''pycuda'' then
        (if found_pycuda then Inr (Some Calc_blob_blob_forces_pycuda) else Inl NameError)
      else Inr None)"

section \<open>Construction\<close>

lemma check_rows_Inr:
  "check_rows M d ks = Inr () \<longleftrightarrow> (\<forall>k\<in>set ks. length (M ! k) = d)"
  by (induction ks) auto

lemma check_rows_cases:
  "check_rows M d ks = Inr () \<or> check_rows M d ks = Inl SystemExit"
  by (induction ks) auto

lemma rows_square_iff:
  "(\<forall>k\<in>set [0..<length M]. length (M ! k) = length M) \<longleftrightarrow> (\<forall>r\<in>set M. length r = length M)"
  by (auto simp: in_set_conv_nth all_set_conv_all_nth)

lemma init_Inr:
  assumes "init sf M sch = Inr s"
  shows "mobility s = M" and "dim s = length M" and "current_time s = 0"
    and "scheme s = sch" and "sch = ''RFD'' \<or> sch = ''EULER''"
    and "\<forall>r\<in>set M. length r = length M"
proof -
  from assms have ok: "check_rows M (length M) [0..<length M] = Inr ()"
    by (auto simp: init_def split: sum.splits if_splits)
  from assms ok have sch: "sch = ''RFD'' \<or> sch = ''EULER''"
    by (auto simp: init_def split: if_splits)
  from assms ok sch have s: "s = \<lparr>surface_function = sf, mobility = M, dim = length M,
      current_time = 0, scheme = sch\<rparr>"
    by (auto simp: init_def)
  show "mobility s = M" "dim s = length M" "current_time s = 0" "scheme s = sch"
    by (simp_all add: s)
  show "sch = ''RFD'' \<or> sch = ''EULER''" by (rule sch)
  from ok show "\<forall>r\<in>set M. length r = length M"
    by (simp only: check_rows_Inr rows_square_iff)
qed

text \<open>
  C3 (as amended).  Construction fails exactly when the mobility is not square or the
  scheme is not one of "RFD" and "EULER".  A mobility that is not square ends the
  program with \<open>SystemExit\<close> (whatever the scheme is); a square mobility with an
  unknown scheme raises \<open>NotImplementedError\<close>; every square mobility with a known
  scheme gives the integrator with \<open>dim\<close> the number of rows and \<open>current_time = 0\<close>.
\<close>

theorem init_outcome:
  "init sf M sch =
     (if \<exists>r\<in>set M. length r \<noteq> length M then Inl SystemExit
      else if sch \<noteq> ''RFD'' \<and> sch \<noteq> ''EULER'' then Inl NotImplementedError
      else Inr \<lparr>surface_function = sf, mobility = M, dim = length M,
                current_time = 0, scheme = sch\<rparr>)"
proof -
  consider (bad) "\<exists>r\<in>set M. length r \<noteq> length M" | (sq) "\<forall>r\<in>set M. length r = length M"
    by blast
  then show ?thesis
  proof cases
    case bad
    then have "check_rows M (length M) [0..<length M] \<noteq> Inr ()"
      by (simp only: check_rows_Inr rows_square_iff) blast
    with check_rows_cases [of M "length M" "[0..<length M]"]
    have "check_rows M (length M) [0..<length M] = Inl SystemExit" by blast
    with bad show ?thesis by (simp add: init_def)
  next
    case sq
    then have "check_rows M (length M) [0..<length M] = Inr ()"
      by (simp only: check_rows_Inr rows_square_iff)
    with sq show ?thesis by (simp add: init_def)
  qed
qed

theorem init_outcome_witness:
  "init (\<lambda>x. 0) [[1, 0], [0, 1]] ''EULER'' =
     Inr \<lparr>surface_function = (\<lambda>x. 0), mobility = [[1, 0], [0, 1]], dim = 2,
          current_time = 0, scheme = ''EULER''\<rparr>
   \<and> init (\<lambda>x. 0) [[1, 2, 3], [4, 5, 6]] ''RFD'' = Inl SystemExit
   \<and> init (\<lambda>x. 0) [[1]] ''FOO'' = Inl NotImplementedError"
  using init_outcome [of "\<lambda>x. 0" "[[1, 0], [0, 1]]" "''EULER''"]
    init_outcome [of "\<lambda>x. 0" "[[1, 2, 3], [4, 5, 6]]" "''RFD''"]
    init_outcome [of "\<lambda>x. 0" "[[1]]" "''FOO''"]
  by simp

theorem init_counterexample:
  "init (\<lambda>x. 0) [[1, 2, 3], [4, 5, 6]] ''EULER'' = Inl SystemExit
   \<and> init (\<lambda>x. 0) [[1]] ''FOO'' = Inl NotImplementedError
   \<and> SystemExit \<noteq> NotImplementedError"
  by (simp add: init_def)

section \<open>TimeStep\<close>

text \<open>
  C2.  Each successful \<open>TimeStep(dt)\<close> should add \<open>dt\<close> to \<open>current_time\<close>.  It
  does not: on the integrator just built with the scheme "EULER", \<open>TimeStep(1)\<close>
  succeeds and returns the integrator as it was, with \<open>current_time\<close> still \<open>0\<close>.
\<close>

theorem TimeStep_current_time_unchanged:
  "init (\<lambda>x. 0) [[1]] ''EULER'' = Inr \<lparr>surface_function = (\<lambda>x. 0), mobility = [[1]],
        dim = 1, current_time = 0, scheme = ''EULER''\<rparr>
   \<and> TimeStep \<lparr>surface_function = (\<lambda>x. 0), mobility = [[1]], dim = 1,
        current_time = 0, scheme = ''EULER''\<rparr> 1 =
      (Inr (), \<lparr>surface_function = (\<lambda>x. 0), mobility = [[1]], dim = 1,
        current_time = 0, scheme = ''EULER''\<rparr>)"
  by (simp add: init_def TimeStep_def EulerTimeStep_def)

text \<open>
  C4.  A call of \<open>TimeStep\<close> that raises leaves the integrator exactly as it was
  before the call: every attribute, \<open>current_time\<close> among them, is unchanged.
\<close>

theorem TimeStep_failure_keeps_state:
  assumes "fst (TimeStep s dt) = Inl e"
  shows "snd (TimeStep s dt) = s"
  using assms by (simp add: TimeStep_def RFDTimeStep_def EulerTimeStep_def split: if_splits)

theorem TimeStep_failure_keeps_state_witness:
  "fst (TimeStep \<lparr>surface_function = (\<lambda>x. 0), mobility = [[1]], dim = 1,
        current_time = 0, scheme = ''FOO''\<rparr> 1) = Inl SystemExit
   \<and> snd (TimeStep \<lparr>surface_function = (\<lambda>x. 0), mobility = [[1]], dim = 1,
        current_time = 0, scheme = ''FOO''\<rparr> 1) =
      \<lparr>surface_function = (\<lambda>x. 0), mobility = [[1]], dim = 1,
        current_time = 0, scheme = ''FOO''\<rparr>"
proof -
  let ?s = "\<lparr>surface_function = (\<lambda>x. 0), mobility = [[1]], dim = 1,
        current_time = 0, scheme = ''FOO''\<rparr>"
  have f: "fst (TimeStep ?s 1) = Inl SystemExit" by (simp add: TimeStep_def)
  from f TimeStep_failure_keeps_state [OF f] show ?thesis by simp
qed

text \<open>
  C8 (as amended).  \<open>TimeStep\<close> does not look at \<open>dt\<close> before it dispatches: on an
  integrator built by the constructor it calls the step method of the scheme for
  every \<open>dt\<close>, zero and negative ones included, and raises no error.
\<close>

theorem TimeStep_no_dt_check:
  assumes "init sf M sch = Inr s"
  shows "TimeStep s dt = (if sch = ''RFD'' then RFDTimeStep s dt else EulerTimeStep s dt)
       \<and> fst (TimeStep s dt) = Inr ()"
  using init_Inr(4,5) [OF assms]
  by (auto simp: TimeStep_def RFDTimeStep_def EulerTimeStep_def)

theorem TimeStep_no_dt_check_witness:
  "init (\<lambda>x. 0) [[1]] ''RFD'' = Inr \<lparr>surface_function = (\<lambda>x. 0), mobility = [[1]], dim = 1,
        current_time = 0, scheme = ''RFD''\<rparr>
   \<and> (- 1 :: real) \<le> 0
   \<and> fst (TimeStep \<lparr>surface_function = (\<lambda>x. 0), mobility = [[1]], dim = 1,
        current_time = 0, scheme = ''RFD''\<rparr> (- 1)) = Inr ()"
proof -
  have i: "init (\<lambda>x. 0) [[1]] ''RFD'' = Inr \<lparr>surface_function = (\<lambda>x. 0), mobility = [[1]],
        dim = 1, current_time = 0, scheme = ''RFD''\<rparr>"
    by (simp add: init_def)
  from i TimeStep_no_dt_check [OF i, of "- 1", THEN conjunct2] show ?thesis by simp
qed

theorem TimeStep_counterexample:
  "(- 1 :: real) \<le> 0
   \<and> init (\<lambda>x. 0) [[1]] ''EULER'' = Inr \<lparr>surface_function = (\<lambda>x. 0), mobility = [[1]],
        dim = 1, current_time = 0, scheme = ''EULER''\<rparr>
   \<and> fst (TimeStep \<lparr>surface_function = (\<lambda>x. 0), mobility = [[1]], dim = 1,
        current_time = 0, scheme = ''EULER''\<rparr> (- 1)) = Inr ()"
  by (simp add: init_def TimeStep_def EulerTimeStep_def)

section \<open>ApplyMobility\<close>






text \<open>
  C5.  \<open>ApplyMobility\<close> should return the product of the mobility and the force and
  change nothing.  It returns nothing: on the integrator built from the mobility
  \<open>[[1, 2], [3, 4]]\<close> and the force \<open>[5, 6]\<close>, of length \<open>dim\<close>, the call raises
  \<open>NameError\<close>.  The integrator is left as it was.
\<close>

theorem ApplyMobility_NameError:
  "init (\<lambda>x. 0) [[1, 2], [3, 4]] ''EULER'' =
     Inr \<lparr>surface_function = (\<lambda>x. 0), mobility = [[1, 2], [3, 4]], dim = 2,
       current_time = 0, scheme = ''EULER''\<rparr>
   \<and> length [5, 6 :: real] = dim \<lparr>surface_function = (\<lambda>x. 0), mobility = [[1, 2], [3, 4]],
       dim = 2, current_time = 0, scheme = ''EULER''\<rparr>
   \<and> ApplyMobility \<lparr>surface_function = (\<lambda>x. 0), mobility = [[1, 2], [3, 4]], dim = 2,
       current_time = 0, scheme = ''EULER''\<rparr> [5, 6] =
     (Inl NameError, \<lparr>surface_function = (\<lambda>x. 0), mobility = [[1, 2], [3, 4]], dim = 2,
       current_time = 0, scheme = ''EULER''\<rparr>)"
  by (simp add: init_def ApplyMobility_def)

text \<open>
  C6.  \<open>ApplyMobility\<close> should be linear.  None of the three calls of the equation
  returns a value: with the mobility \<open>[[1, 2], [3, 4]]\<close>, \<open>F1 = [1, 0]\<close>,
  \<open>F2 = [0, 1]\<close>, \<open>a = 2\<close> and \<open>b = 3\<close>, the calls on \<open>F1\<close>, on \<open>F2\<close> and on
  \<open>a*F1 + b*F2 = [2, 3]\<close> all raise \<open>NameError\<close>.
\<close>

theorem ApplyMobility_linear_NameError:
  "array_add (array_scale 2 [1, 0]) (array_scale 3 [0, 1]) = [2, 3]
   \<and> fst (ApplyMobility \<lparr>surface_function = (\<lambda>x. 0), mobility = [[1, 2], [3, 4]], dim = 2,
       current_time = 0, scheme = ''RFD''\<rparr> [1, 0]) = Inl NameError
   \<and> fst (ApplyMobility \<lparr>surface_function = (\<lambda>x. 0), mobility = [[1, 2], [3, 4]], dim = 2,
       current_time = 0, scheme = ''RFD''\<rparr> [0, 1]) = Inl NameError
   \<and> fst (ApplyMobility \<lparr>surface_function = (\<lambda>x. 0), mobility = [[1, 2], [3, 4]], dim = 2,
       current_time = 0, scheme = ''RFD''\<rparr>
         (array_add (array_scale 2 [1, 0]) (array_scale 3 [0, 1]))) = Inl NameError"
  by (simp add: ApplyMobility_def array_add_def array_scale_def)




section \<open>Blob-blob forces\<close>

text \<open>
  An array without \<open>nan\<close> is \<open>map Some vs\<close>.  The loops keep such an array free of
  \<open>nan\<close> and keep the sum of its rows, as long as every pair force is a row of reals.
\<close>

lemma sum_list_update_group:
  fixes xs :: "'a::ab_group_add list"
  shows "k < length xs \<Longrightarrow> sum_list (xs[k := x]) = sum_list xs + x - xs ! k"
proof (induction xs arbitrary: k)
  case Nil
  then show ?case by simp
next
  case (Cons a xs)
  then show ?case by (cases k) (simp_all add: algebra_simps)
qed

lemma norm3_eq_0_iff: "norm3 r = 0 \<longleftrightarrow> r = 0"
proof (cases r)
  case (Vec3 x y z)
  have "x\<^sup>2 + y\<^sup>2 + z\<^sup>2 = 0 \<longleftrightarrow> x = 0 \<and> y = 0 \<and> z = 0"
    by (metis add_nonneg_eq_0_iff add_nonneg_nonneg zero_le_power2 power2_eq_iff_nonneg
        zero_eq_power2)
  then show ?thesis
    by (simp add: Vec3 norm3_def zero_vec3_def)
qed

lemma foldl_nan_add_Some:
  "foldl nan_add (Some a) (map Some vs) = Some (a + sum_list vs)"
  by (induction vs arbitrary: a) (simp_all add: nan_add_def add.assoc)

lemma array_sum_Some: "array_sum (map Some vs) = Some (sum_list vs)"
  by (simp add: array_sum_def foldl_nan_add_Some)

lemma blob_pairs_inner_sum:
  assumes "blob_pairs_inner f r i js (map Some vs) = Inr fb'"
    and "i < length vs" and "\<forall>j\<in>set js. j < length vs \<and> j \<noteq> i"
    and "\<forall>j\<in>set js. f (r ! j - r ! i) \<noteq> Inr None"
  shows "\<exists>vs'. fb' = map Some vs' \<and> sum_list vs' = sum_list vs \<and> length vs' = length vs"
  using assms
proof (induction js arbitrary: vs)
  case Nil
  then show ?case by auto
next
  case (Cons j js)
  from Cons.prems(1,4) obtain force where f: "f (r ! j - r ! i) = Inr (Some force)"
    by (auto split: sum.splits)
  from Cons.prems have ij: "i < length vs" "j < length vs" "j \<noteq> i" by auto
  let ?v1 = "vs[i := vs ! i + force]"
  let ?v2 = "?v1[j := ?v1 ! j - force]"
  from ij have upd: "((map Some vs)[i := nan_add (map Some vs ! i) (Some force)])
        [j := nan_sub ((map Some vs)[i := nan_add (map Some vs ! i) (Some force)] ! j) (Some force)]
      = map Some ?v2"
    by (simp add: nan_add_def nan_sub_def map_update)
  from Cons.prems(1) f have rest: "blob_pairs_inner f r i js (map Some ?v2) = Inr fb'"
    by (simp add: Let_def upd del: nth_map)
  have "\<exists>vs'. fb' = map Some vs' \<and> sum_list vs' = sum_list ?v2 \<and> length vs' = length ?v2"
    using rest Cons.prems by (intro Cons.IH) auto
  moreover from ij have "sum_list ?v2 = sum_list vs"
    by (simp add: sum_list_update_group)
  ultimately show ?case by simp
qed

lemma blob_pairs_outer_sum:
  assumes "blob_pairs_outer f r n ii (map Some vs) = Inr fb'"
    and "length vs = n" and "\<forall>i\<in>set ii. i < n"
    and "\<forall>i\<in>set ii. \<forall>j\<in>set [i + 1..<n]. f (r ! j - r ! i) \<noteq> Inr None"
  shows "\<exists>vs'. fb' = map Some vs' \<and> sum_list vs' = sum_list vs \<and> length vs' = length vs"
  using assms
proof (induction ii arbitrary: vs)
  case Nil
  then show ?case by auto
next
  case (Cons i ii)
  from Cons.prems(1) obtain fb1 where
    inner: "blob_pairs_inner f r i [i + 1..<n] (map Some vs) = Inr fb1"
    and rest: "blob_pairs_outer f r n ii fb1 = Inr fb'"
    by (auto split: sum.splits)
  from Cons.prems have "\<exists>vs1. fb1 = map Some vs1 \<and> sum_list vs1 = sum_list vs
      \<and> length vs1 = length vs"
    by (intro blob_pairs_inner_sum [OF inner]) auto
  then obtain vs1 where 1: "fb1 = map Some vs1" "sum_list vs1 = sum_list vs"
    "length vs1 = length vs" by blast
  from rest 1 Cons.prems
  have "\<exists>vs'. fb' = map Some vs' \<and> sum_list vs' = sum_list vs1 \<and> length vs' = length vs1"
    by (intro Cons.IH) auto
  with 1 show ?case by simp
qed

lemma blob_pairs_inner_total:
  assumes "\<And>r. \<exists>v. f r = Inr v"
  shows "\<exists>fb'. blob_pairs_inner f r i js fb = Inr fb'"
proof (induction js arbitrary: fb)
  case Nil
  then show ?case by simp
next
  case (Cons j js)
  from assms obtain force where "f (r ! j - r ! i) = Inr force" by blast
  with Cons.IH show ?case by (simp add: Let_def)
qed

lemma blob_pairs_outer_total:
  assumes "\<And>r. \<exists>v. f r = Inr v"
  shows "\<exists>fb'. blob_pairs_outer f r n ii fb = Inr fb'"
proof (induction ii arbitrary: fb)
  case Nil
  then show ?case by simp
next
  case (Cons i ii)
  have "\<exists>fb1. blob_pairs_inner f r i [i + 1..<n] fb = Inr fb1"
    by (rule blob_pairs_inner_total) (rule assms)
  then obtain fb1 where "blob_pairs_inner f r i [i + 1..<n] fb = Inr fb1" ..
  with Cons.IH show ?case by simp
qed

lemma sum_list_replicate_zero: "sum_list (replicate n (0::vec3)) = 0"
  by (induction n) simp_all

lemma blob_blob_force_finite:
  "r \<noteq> 0 \<Longrightarrow> blob_blob_force kwargs r \<noteq> Inr None"
  by (simp add: blob_blob_force_def Let_def norm3_eq_0_iff split: option.splits)

text \<open>
  C9 (as amended).  For pairwise distinct blob positions, the array that
  \<open>calc_blob_blob_forces_python\<close> returns has one row per blob and its rows sum to the
  zero vector.  For zero or one blob the result is all zeros, whatever the keyword
  arguments are.  The function returns whenever both keyword arguments are given and
  \<open>debey_length\<close> is not zero.
\<close>

theorem calc_blob_blob_forces_python_sum:
  "(\<forall>force_blobs. distinct r_vectors \<and>
        calc_blob_blob_forces_python kwargs r_vectors = Inr force_blobs \<longrightarrow>
      array_sum force_blobs = Some 0 \<and> length force_blobs = length r_vectors)
   \<and> (length r_vectors \<le> 1 \<longrightarrow>
      calc_blob_blob_forces_python kwargs r_vectors = Inr (replicate (length r_vectors) (Some 0)))
   \<and> ((\<exists>eps b. kwargs ''repulsion_strength'' = Some eps \<and> kwargs ''debey_length'' = Some b
          \<and> b \<noteq> 0) \<longrightarrow>
      (\<exists>force_blobs. calc_blob_blob_forces_python kwargs r_vectors = Inr force_blobs))"
proof (intro conjI allI impI)
  fix fb
  assume a: "distinct r_vectors \<and> calc_blob_blob_forces_python kwargs r_vectors = Inr fb"
  let ?n = "length r_vectors"
  from a have run: "blob_pairs_outer (blob_blob_force kwargs) r_vectors ?n
      [0..<?n - 1] (map Some (replicate ?n 0)) = Inr fb"
    by (simp add: calc_blob_blob_forces_python_def Let_def)
  have fin: "\<forall>i\<in>set [0..<?n - 1]. \<forall>j\<in>set [i + 1..<?n].
      blob_blob_force kwargs (r_vectors ! j - r_vectors ! i) \<noteq> Inr None"
  proof (intro ballI)
    fix i j
    assume "i \<in> set [0..<?n - 1]" and "j \<in> set [i + 1..<?n]"
    then have "i < ?n" "j < ?n" "i \<noteq> j" by auto
    with a have "r_vectors ! j \<noteq> r_vectors ! i"
      by (simp add: nth_eq_iff_index_eq)
    then have "r_vectors ! j - r_vectors ! i \<noteq> 0" by simp
    then show "blob_blob_force kwargs (r_vectors ! j - r_vectors ! i) \<noteq> Inr None"
      by (rule blob_blob_force_finite)
  qed
  have "\<exists>vs'. fb = map Some vs' \<and> sum_list vs' = sum_list (replicate ?n (0::vec3))
      \<and> length vs' = length (replicate ?n (0::vec3))"
    using run _ _ fin by (rule blob_pairs_outer_sum) auto
  then obtain vs' where "fb = map Some vs'" "sum_list vs' = 0" "length vs' = ?n"
    by (auto simp: sum_list_replicate_zero)
  then show "array_sum fb = Some 0" "length fb = length r_vectors"
    by (simp_all add: array_sum_Some)
next
  assume "length r_vectors \<le> 1"
  then have "length r_vectors = 0 \<or> length r_vectors = 1" by arith
  then show "calc_blob_blob_forces_python kwargs r_vectors =
      Inr (replicate (length r_vectors) (Some 0))"
    by (auto simp: calc_blob_blob_forces_python_def Let_def)
next
  assume "\<exists>eps b. kwargs ''repulsion_strength'' = Some eps \<and> kwargs ''debey_length'' = Some b
      \<and> b \<noteq> 0"
  then have "\<And>r. \<exists>v. blob_blob_force kwargs r = Inr v"
    by (auto simp: blob_blob_force_def Let_def)
  then show "\<exists>fb. calc_blob_blob_forces_python kwargs r_vectors = Inr fb"
    unfolding calc_blob_blob_forces_python_def Let_def
    by (rule blob_pairs_outer_total)
qed

theorem calc_blob_blob_forces_python_sum_witness:
  "distinct [Vec3 0 0 0, Vec3 1 0 0]
   \<and> (\<exists>force_blobs.
        calc_blob_blob_forces_python [''repulsion_strength'' \<mapsto> 1, ''debey_length'' \<mapsto> 1]
          [Vec3 0 0 0, Vec3 1 0 0] = Inr force_blobs
        \<and> array_sum force_blobs = Some 0 \<and> length force_blobs = 2)
   \<and> calc_blob_blob_forces_python Map.empty [Vec3 1 2 3] = Inr [Some 0]"
proof -
  let ?kw = "[''repulsion_strength'' \<mapsto> 1 :: real, ''debey_length'' \<mapsto> 1]"
  let ?r = "[Vec3 0 0 0, Vec3 1 0 0]"
  note t = calc_blob_blob_forces_python_sum [of ?r ?kw]
  have d: "distinct ?r" by simp
  have "\<exists>eps b. ?kw ''repulsion_strength'' = Some eps \<and> ?kw ''debey_length'' = Some b \<and> b \<noteq> 0"
    by simp
  with t obtain fb where fb: "calc_blob_blob_forces_python ?kw ?r = Inr fb" by blast
  with t d have "array_sum fb = Some 0 \<and> length fb = 2" by simp
  with fb have 1: "\<exists>fb. calc_blob_blob_forces_python ?kw ?r = Inr fb
      \<and> array_sum fb = Some 0 \<and> length fb = 2" by blast
  from calc_blob_blob_forces_python_sum [of "[Vec3 1 2 3]" Map.empty]
  have 2: "calc_blob_blob_forces_python Map.empty [Vec3 1 2 3] = Inr [Some 0]" by simp
  from d 1 2 show ?thesis by blast
qed

theorem calc_blob_blob_forces_python_counterexample:
  "calc_blob_blob_forces_python [''repulsion_strength'' \<mapsto> 1, ''debey_length'' \<mapsto> 1]
       [Vec3 0 0 0, Vec3 0 0 0] = Inr [None, None]
   \<and> array_sum [None, None] \<noteq> Some 0"
proof -
  have f: "blob_blob_force [''repulsion_strength'' \<mapsto> 1, ''debey_length'' \<mapsto> 1] 0 = Inr None"
    by (simp add: blob_blob_force_def norm3_def zero_vec3_def)
  show ?thesis
    by (simp add: calc_blob_blob_forces_python_def f nan_add_def nan_sub_def array_sum_def)
qed

text \<open>
  C10.  \<open>set_blob_blob_forces\<close> returns a function only for the names 'None',
  'python', 'C++' and 'pycuda'; for every other name it returns \<open>None\<close> and raises
  nothing.  For 'None', 'python' and 'C++' it always returns the function; for
  'pycuda' it does when pycuda was found at import, and raises \<open>NameError\<close> otherwise.
\<close>

theorem set_blob_blob_forces_names:
  "(\<forall>f. set_blob_blob_forces found_pycuda implementation = Inr (Some f) \<longrightarrow>
        implementation \<in> set [''None'', ''python'', ''C++'', ''pycuda''])
   \<and> (implementation \<notin> set [''None'', ''python'', ''C++'', ''pycuda''] \<longrightarrow>
        set_blob_blob_forces found_pycuda implementation = Inr None)
   \<and> (implementation \<in> set [''None'', ''python'', ''C++''] \<longrightarrow>
        (\<exists>f. set_blob_blob_forces found_pycuda implementation = Inr (Some f)))
   \<and> (implementation = ''pycuda'' \<longrightarrow>
        set_blob_blob_forces found_pycuda implementation =
          (if found_pycuda then Inr (Some Calc_blob_blob_forces_pycuda) else Inl NameError))"
  by (simp add: set_blob_blob_forces_def)

theorem set_blob_blob_forces_names_witness:
  "set_blob_blob_forces False ''cuda'' = Inr None
   \<and> set_blob_blob_forces True ''PYTHON'' = Inr None
   \<and> (\<exists>f. set_blob_blob_forces False ''python'' = Inr (Some f))
   \<and> set_blob_blob_forces False ''pycuda'' = Inl NameError"
  using set_blob_blob_forces_names [of False "''cuda''"]
    set_blob_blob_forces_names [of True "''PYTHON''"]
    set_blob_blob_forces_names [of False "''python''"]
    set_blob_blob_forces_names [of False "''pycuda''"]
  by simp

end
